theory Spec2Isabelle
  imports Complex_Main "HOL-Library.Word"
begin

section \<open>Numeric conversions of the source language\<close>

text \<open>
  A C++ floating-integral conversion truncates towards zero, and its behaviour is
  undefined when the truncated value is not representable in the destination type.
  The undefined case is the value \<open>None\<close>.
\<close>

type_synonym ushort = "16 word"

definition trunc_toward_zero :: "real \<Rightarrow> int" where
  "trunc_toward_zero r = (if 0 \<le> r then \<lfloor>r\<rfloor> else \<lceil>r\<rceil>)"

definition to_ushort :: "real \<Rightarrow> ushort option" where
  "to_ushort r =
     (let t = trunc_toward_zero r
      in if 0 \<le> t \<and> t \<le> 65535 then Some (word_of_int t) else None)"

text \<open>
  A finite \<open>double\<close> or \<open>float\<close> is the real number it denotes.  An operation yields
  its exact result rounded to the nearest value of the format, ties to the even
  significand: with \<open>p\<close> bits of precision and exponents from \<open>emin\<close> to \<open>emax\<close>, a
  result \<open>r\<close> with binary exponent \<open>e\<close> (at least \<open>emin\<close>, which covers the subnormal
  range) is rounded to a multiple of \<open>2 ^ (e - p + 1)\<close>.  A rounded result of magnitude
  \<open>2 ^ (emax + 1)\<close> or more is infinite: the value \<open>None\<close>, which stands for every
  non-finite value.  \<open>double\<close> has 53 bits and exponents from -1022 to 1023, \<open>float\<close>
  24 bits and exponents from -126 to 127.  Each operation is rounded on its own (no
  fused multiply-add, no excess precision).
\<close>

definition round_even :: "real \<Rightarrow> int" where
  "round_even q =
     (let f = \<lfloor>q\<rfloor>
      in if q - real_of_int f < 1 / 2 then f
         else if 1 / 2 < q - real_of_int f then f + 1
         else if even f then f else f + 1)"

definition fp_round :: "nat \<Rightarrow> int \<Rightarrow> int \<Rightarrow> real \<Rightarrow> real option" where
  "fp_round p emin emax r =
     (let e = (if r = 0 then emin else max emin \<lfloor>log 2 \<bar>r\<bar>\<rfloor>);
          ulp = 2 powr real_of_int (e - int p + 1);
          v = real_of_int (round_even (r / ulp)) * ulp
      in if \<bar>v\<bar> < 2 powr real_of_int (emax + 1) then Some v else None)"

definition to_double :: "real \<Rightarrow> real option" where
  "to_double = fp_round 53 (- 1022) 1023"

definition to_float :: "real \<Rightarrow> real option" where
  "to_float = fp_round 24 (- 126) 127"

section \<open>depthFromVec\<close>

text \<open>\<open>cv::Point3d\<close>: three finite \<open>double\<close> coordinates.\<close>

datatype Point3d = Point3d (pt_x: real) (pt_y: real) (pt_z: real)

text \<open>
  Line 52: \<open>float mag = sqrt(xyz.x*xyz.x + xyz.y*xyz.y + xyz.z*xyz.z)\<close>.  The products,
  the two sums (from the left) and the square root are \<open>double\<close> operations; the
  initialisation narrows the result to \<open>float\<close>.
\<close>

definition mag :: "Point3d \<Rightarrow> real option" where
  "mag xyz =
     Option.bind (to_double (pt_x xyz * pt_x xyz)) (\<lambda>xx.
     Option.bind (to_double (pt_y xyz * pt_y xyz)) (\<lambda>yy.
     Option.bind (to_double (xx + yy)) (\<lambda>xxyy.
     Option.bind (to_double (pt_z xyz * pt_z xyz)) (\<lambda>zz.
     Option.bind (to_double (xxyy + zz)) (\<lambda>sum.
     Option.bind (to_double (sqrt sum)) to_float)))))"

text \<open>
  Line 53: \<open>ushort pixel_val = (ushort)(mag*256.0)\<close>, as a function of the \<open>float\<close>
  \<open>mag\<close>.  The promotion to \<open>double\<close> and the product with 256.0 are exact.
\<close>

definition pixel_val :: "real \<Rightarrow> ushort option" where
  "pixel_val m = to_ushort (m * 256)"

text \<open>Lines 51 to 55.  A non-finite \<open>mag\<close> makes the cast undefined.\<close>

definition depthFromVec :: "Point3d \<Rightarrow> ushort option" where
  "depthFromVec xyz = Option.bind (mag xyz) pixel_val"

text \<open>
  The specification's encoder and decoder, kept apart from the code for comparison:
  \<open>encode(d) = round(d \<times> 256)\<close> saturated to \<open>[0, 65535]\<close> with \<open>encode(0)\<close> clamped
  to 1, and \<open>decode(v) = 0.0 if v == 0 else v / 256.0\<close>.  The source has no decoder;
  its header comment (lines 40 to 44) documents the same reading of a pixel.
\<close>

definition spec_encode :: "real \<Rightarrow> int" where
  "spec_encode d = (if d = 0 then 1 else max 0 (min 65535 (round (d * 256))))"

definition decode :: "ushort \<Rightarrow> real" where
  \<comment> \<open>Modelled from the spec: the decoder of section 4.5, absent from the source.\<close>
  "decode v = (if v = 0 then 0 else real (unat v) / 256)"

section \<open>Messages and the node\<close>

text \<open>
  The fields of the two messages that matter here: the declared sizes, the focal
  lengths and the principal point of the camera, the header and the points of the cloud.
  An image is its number of rows and columns and its elements by (row, column).
\<close>

record CameraInfo =
  ci_width :: "32 word"
  ci_height :: "32 word"
  ci_fx :: real
  ci_fy :: real
  ci_cx :: real
  ci_cy :: real

record PointCloud2 =
  pc_frame_id :: string
  pc_stamp :: nat
  pc_width :: "32 word"
  pc_height :: "32 word"
  pc_points :: "Point3d list"

record Mat =
  mat_rows :: int
  mat_cols :: int
  elems :: "int \<times> int \<Rightarrow> ushort"

text \<open>
  What a callback of the node can do to the outside, in the order in which it does it:
  print a line with \<open>printf\<close> (format and arguments; \<open>%d\<close> reads the 32-bit argument as
  signed), load a local \<open>PinholeCameraModel\<close> from a camera info, log a warning with
  \<open>ROS_WARN\<close>, publish an image on \<open>depth_image\<close> (frame id and stamp of its header, and
  the image).  The members of \<open>Lidar2Depth\<close> are the transform buffer (a lookup by target
  frame, source frame and stamp; a transform is the map it applies to a point) and the
  target frame.
\<close>

datatype effect =
    Printf string "int list"
  | FromCameraInfo CameraInfo
  | ROS_WARN
  | Publish string nat Mat

record Lidar2Depth =
  tf_buffer :: "string \<Rightarrow> string \<Rightarrow> nat \<Rightarrow> (Point3d \<Rightarrow> Point3d) option"
  target_frame :: string

text \<open>
  \<open>cloud_callback\<close>: lines 87 to 92, the whole compiled body.  Lines 94 to 150 are
  comments.  The result is the effects of the call and the object after it.
\<close>

definition cloud_callback ::
  "Lidar2Depth \<Rightarrow> PointCloud2 \<Rightarrow> CameraInfo \<Rightarrow> effect list \<times> Lidar2Depth" where
  "cloud_callback self cloud_msg cam_info =
     ([Printf (''Cloud: width = %d, height = %d'' @ [CHR 0x0A])
         [sint (pc_width cloud_msg), sint (pc_height cloud_msg)],
       Printf (''Camera: width = %d, height = %d'' @ [CHR 0x0A])
         [sint (ci_width cam_info), sint (ci_height cam_info)],
       FromCameraInfo cam_info],
      self)"

text \<open>
  \<open>ros::spin\<close> with the synchronizer registered in the constructor: the callback runs
  once for each synchronized pair of messages, in order.
\<close>

fun spin ::
  "Lidar2Depth \<Rightarrow> (PointCloud2 \<times> CameraInfo) list \<Rightarrow> effect list \<times> Lidar2Depth" where
  "spin self [] = ([], self)"
| "spin self ((cloud_msg, cam_info) # msgs) =
     (let (out, self') = cloud_callback self cloud_msg cam_info;
          (outs, self'') = spin self' msgs
      in (out @ outs, self''))"

text \<open>The images published and the warnings logged among some effects.\<close>

fun published :: "effect list \<Rightarrow> Mat list" where
  "published [] = []"
| "published (Publish frame_id stamp img # es) = img # published es"
| "published (e # es) = published es"


section \<open>The conversion to \<open>ushort\<close>\<close>

lemma to_ushort_in_range:
  assumes "0 \<le> r" and "r < 65536"
  shows "\<exists>w. to_ushort r = Some w \<and> uint w = \<lfloor>r\<rfloor>"
proof -
  have lo: "0 \<le> \<lfloor>r\<rfloor>" using assms(1) by simp
  have "\<lfloor>r\<rfloor> < 65536" using assms(2) by (simp add: floor_less_iff)
  then have hi: "\<lfloor>r\<rfloor> \<le> 65535" by simp
  have "uint (word_of_int \<lfloor>r\<rfloor> :: ushort) = \<lfloor>r\<rfloor>"
    using lo hi by (simp add: uint_word_of_int take_bit_int_eq_self)
  then show ?thesis
    using assms(1) lo hi by (simp add: to_ushort_def trunc_toward_zero_def)
qed

lemma to_ushort_too_large:
  assumes "65536 \<le> r"
  shows "to_ushort r = None"
proof -
  have "65536 \<le> \<lfloor>r\<rfloor>" using assms by (simp add: le_floor_iff)
  then show ?thesis using assms by (simp add: to_ushort_def trunc_toward_zero_def)
qed

section \<open>Rounding\<close>

lemma round_even_err: "\<bar>real_of_int (round_even q) - q\<bar> \<le> 1 / 2"
proof -
  have "real_of_int \<lfloor>q\<rfloor> \<le> q" "q < real_of_int \<lfloor>q\<rfloor> + 1" by linarith+
  then show ?thesis by (auto simp: round_even_def Let_def)
qed

lemma round_even_nonneg: "0 \<le> q \<Longrightarrow> 0 \<le> round_even q"
  by (auto simp: round_even_def Let_def)

lemma round_even_of_int: "round_even (real_of_int n) = n"
  by (simp add: round_even_def)

lemma fp_round_close:
  assumes r: "\<bar>r\<bar> \<le> 2 powr real_of_int k" and k: "emin \<le> k" "k \<le> emax" and p: "0 < p"
  shows "\<exists>v. fp_round p emin emax r = Some v
           \<and> \<bar>v - r\<bar> \<le> 2 powr real_of_int (k - int p) \<and> (0 \<le> r \<longrightarrow> 0 \<le> v)"
proof -
  define e where "e = (if r = 0 then emin else max emin \<lfloor>log 2 \<bar>r\<bar>\<rfloor>)"
  define ulp where "ulp = 2 powr real_of_int (e - int p + 1)"
  define v where "v = real_of_int (round_even (r / ulp)) * ulp"
  have ulp_pos: "0 < ulp" by (simp add: ulp_def)
  have ek: "e \<le> k"
  proof (cases "r = 0")
    case True
    then show ?thesis using k by (simp add: e_def)
  next
    case False
    then have "0 < \<bar>r\<bar>" by simp
    then have "log 2 \<bar>r\<bar> \<le> real_of_int k" using r by (simp add: log_le_iff)
    then have "\<lfloor>log 2 \<bar>r\<bar>\<rfloor> \<le> k" by (simp add: floor_le_iff)
    then show ?thesis using k False by (simp add: e_def)
  qed
  then have "real_of_int (e - int p + 1) \<le> real_of_int (k - int p + 1)" by simp
  then have "ulp \<le> 2 powr real_of_int (k - int p + 1)"
    unfolding ulp_def by (intro powr_mono) simp_all
  also have "\<dots> = 2 * 2 powr real_of_int (k - int p)"
  proof -
    have "real_of_int (k - int p + 1) = real_of_int (k - int p) + 1" by simp
    moreover have "2 powr (real_of_int (k - int p) + 1)
                     = 2 powr real_of_int (k - int p) * 2 powr 1"
      by (rule powr_add)
    ultimately show ?thesis by simp
  qed
  finally have ulp_le: "ulp \<le> 2 * 2 powr real_of_int (k - int p)" .
  have "\<bar>v - r\<bar> = \<bar>real_of_int (round_even (r / ulp)) - r / ulp\<bar> * ulp"
  proof -
    have "v - r = (real_of_int (round_even (r / ulp)) - r / ulp) * ulp"
      using ulp_pos by (simp add: v_def algebra_simps)
    then show ?thesis using ulp_pos by (simp add: abs_mult)
  qed
  also have "\<dots> \<le> (1 / 2) * ulp"
    using round_even_err [of "r / ulp"] ulp_pos by (intro mult_right_mono) simp_all
  also have "\<dots> \<le> 2 powr real_of_int (k - int p)" using ulp_le by simp
  finally have close: "\<bar>v - r\<bar> \<le> 2 powr real_of_int (k - int p)" .
  have "real_of_int (k - int p) \<le> real_of_int k - 1" using p by simp
  then have "2 powr real_of_int (k - int p) \<le> 2 powr (real_of_int k - 1)"
    by (intro powr_mono) simp_all
  also have "\<dots> = 2 powr real_of_int k / 2" by (simp add: powr_diff)
  finally have small: "2 powr real_of_int (k - int p) \<le> 2 powr real_of_int k / 2" .
  have kpos: "0 < 2 powr real_of_int k" by simp
  have "\<bar>v\<bar> \<le> \<bar>r\<bar> + \<bar>v - r\<bar>" by linarith
  also have "\<dots> \<le> 2 powr real_of_int k + 2 powr real_of_int k / 2"
    using r close small by linarith
  also have "\<dots> < 2 * 2 powr real_of_int k" using kpos by linarith
  also have "\<dots> = 2 powr real_of_int (k + 1)"
  proof -
    have "2 powr (real_of_int k + 1) = 2 powr real_of_int k * 2 powr 1" by (rule powr_add)
    then show ?thesis by simp
  qed
  also have "\<dots> \<le> 2 powr real_of_int (emax + 1)"
    using k by (intro powr_mono) simp_all
  finally have fin: "\<bar>v\<bar> < 2 powr real_of_int (emax + 1)" .
  have nonneg: "0 \<le> r \<longrightarrow> 0 \<le> v"
  proof
    assume "0 \<le> r"
    then have "0 \<le> r / ulp" using ulp_pos by simp
    from round_even_nonneg [OF this] show "0 \<le> v" using ulp_pos by (simp add: v_def)
  qed
  have "fp_round p emin emax r = Some v"
    using fin unfolding fp_round_def Let_def v_def ulp_def e_def by simp
  with close nonneg show ?thesis by blast
qed

lemma fp_round_zero: "0 < p \<Longrightarrow> fp_round p emin emax 0 = Some 0"
  by (simp add: fp_round_def round_even_def)

lemma fp_round_exact:
  assumes "2 powr real_of_int e \<le> \<bar>r\<bar>" and "\<bar>r\<bar> < 2 powr real_of_int (e + 1)"
    and "emin \<le> e" and "e \<le> emax"
    and "r / 2 powr real_of_int (e - int p + 1) = real_of_int n"
  shows "fp_round p emin emax r = Some r"
proof -
  have pos: "0 < \<bar>r\<bar>" using assms(1) by (smt (verit) powr_gt_zero)
  then have r0: "r \<noteq> 0" by simp
  have "\<lfloor>log 2 \<bar>r\<bar>\<rfloor> = e"
    using pos assms(1,2) by (simp add: floor_log_eq_powr_iff)
  then have e: "(if r = 0 then emin else max emin \<lfloor>log 2 \<bar>r\<bar>\<rfloor>) = e"
    using r0 assms(3) by simp
  have v: "real_of_int (round_even (r / 2 powr real_of_int (e - int p + 1)))
             * 2 powr real_of_int (e - int p + 1) = r"
  proof -
    have u: "0 < (2::real) powr real_of_int (e - int p + 1)" by simp
    have "real_of_int (round_even (r / 2 powr real_of_int (e - int p + 1)))
            = r / 2 powr real_of_int (e - int p + 1)"
      unfolding assms(5) by (simp add: round_even_of_int)
    then show ?thesis using u by simp
  qed
  have "2 powr real_of_int (e + 1) \<le> 2 powr real_of_int (emax + 1)"
    using assms(4) by (intro powr_mono) simp_all
  with assms(2) have "\<bar>r\<bar> < 2 powr real_of_int (emax + 1)" by linarith
  then show ?thesis
    unfolding fp_round_def Let_def e v by simp
qed

lemma round_even_near:
  assumes "\<bar>q - real_of_int n\<bar> < 1 / 2"
  shows "round_even q = n"
proof -
  have fl: "real_of_int \<lfloor>q\<rfloor> \<le> q" "q < real_of_int \<lfloor>q\<rfloor> + 1" by linarith+
  have "\<lfloor>q\<rfloor> = n \<or> \<lfloor>q\<rfloor> = n - 1" using assms by linarith
  then show ?thesis
  proof
    assume f: "\<lfloor>q\<rfloor> = n"
    have "q - real_of_int \<lfloor>q\<rfloor> < 1 / 2" using assms unfolding f by linarith
    then show ?thesis using f by (simp add: round_even_def Let_def)
  next
    assume f: "\<lfloor>q\<rfloor> = n - 1"
    have "real_of_int \<lfloor>q\<rfloor> = real_of_int n - 1" unfolding f by simp
    with assms have h: "1 / 2 < q - real_of_int \<lfloor>q\<rfloor>" by linarith
    then have "\<not> q - real_of_int \<lfloor>q\<rfloor> < 1 / 2" by linarith
    with h show ?thesis using f by (simp add: round_even_def Let_def)
  qed
qed

lemma fp_round_near:
  assumes "2 powr real_of_int e \<le> \<bar>r\<bar>" and "\<bar>r\<bar> < 2 powr real_of_int (e + 1)"
    and "emin \<le> e"
    and "\<bar>r / 2 powr real_of_int (e - int p + 1) - real_of_int n\<bar> < 1 / 2"
    and "\<bar>real_of_int n * 2 powr real_of_int (e - int p + 1)\<bar> < 2 powr real_of_int (emax + 1)"
  shows "fp_round p emin emax r = Some (real_of_int n * 2 powr real_of_int (e - int p + 1))"
proof -
  have pos: "0 < \<bar>r\<bar>" using assms(1) by (smt (verit) powr_gt_zero)
  then have r0: "r \<noteq> 0" by simp
  have "\<lfloor>log 2 \<bar>r\<bar>\<rfloor> = e"
    using pos assms(1,2) by (simp add: floor_log_eq_powr_iff)
  then have e: "(if r = 0 then emin else max emin \<lfloor>log 2 \<bar>r\<bar>\<rfloor>) = e"
    using r0 assms(3) by simp
  show ?thesis
    unfolding fp_round_def Let_def e round_even_near [OF assms(4)] using assms(5) by simp
qed

text \<open>Close to its argument on the ranges that line 52 needs.\<close>

lemma to_double_close:
  assumes "0 \<le> r" and "r \<le> 131072"
  shows "\<exists>v. to_double r = Some v \<and> \<bar>v - r\<bar> \<le> 1 / 2 ^ 36 \<and> 0 \<le> v"
proof -
  have "\<bar>r\<bar> \<le> 2 powr real_of_int 17" using assms by simp
  from fp_round_close [OF this, of "- 1022" 1023 53]
  show ?thesis using assms(1) by (simp add: to_double_def powr_neg_numeral)
qed





lemma d0: "to_double 0 = Some 0"
  by (simp add: to_double_def fp_round_zero)
lemma f0: "to_float 0 = Some 0"
  by (simp add: to_float_def fp_round_zero)


lemma mag_0: "mag (Point3d 0 0 0) = Some 0"
  by (simp add: mag_def d0 f0)

text \<open>
  The narrowing of line 52 at the point (1/2, 0, 32): the magnitude is the square root of
  1024.25, a little below 8193/256; the nearest \<open>float\<close> is 8193/256, and the function
  returns 8193 where the exact magnitude times 256 has floor 8192.
\<close>

lemma d_quarter: "to_double (1 / 4) = Some (1 / 4)"
  unfolding to_double_def
  by (rule fp_round_exact [where e = "- 2" and n = "2 ^ 52"]) (simp_all add: powr_neg_numeral)
lemma d1024: "to_double 1024 = Some 1024"
  unfolding to_double_def
  by (rule fp_round_exact [where e = 10 and n = "2 ^ 52"]) (simp_all add: powr_neg_numeral)
lemma d4097: "to_double (4097 / 4) = Some (4097 / 4)"
  unfolding to_double_def
  by (rule fp_round_exact [where e = 10 and n = "4097 * 2 ^ 40"]) (simp_all add: powr_neg_numeral)

lemma sqrt_4097_4: "32003906 / 1000000 \<le> sqrt (4097 / 4)" "sqrt (4097 / 4) < 8193 / 256"
proof -
  show "32003906 / 1000000 \<le> sqrt (4097 / 4)"
    by (rule real_le_rsqrt) (simp add: power2_eq_square)
  show "sqrt (4097 / 4) < 8193 / 256"
    by (rule real_less_lsqrt) (simp_all add: power2_eq_square)
qed

lemma mag_half_0_32: "mag (Point3d (1 / 2) 0 32) = Some (8193 / 256)"
proof -
  from to_double_close [of "sqrt (4097 / 4)"] sqrt_4097_4 obtain q where
    q: "to_double (sqrt (4097 / 4)) = Some q" "\<bar>q - sqrt (4097 / 4)\<bar> \<le> 1 / 2 ^ 36"
    by auto
  have eps: "(1::real) / 2 ^ 36 \<le> 1 / 100000000" by simp
  have lo: "32003905 / 1000000 \<le> q" and hi: "q \<le> 32003907 / 1000000"
    using q(2) sqrt_4097_4 eps by linarith+
  have "to_float q = Some (real_of_int 8389632 * 2 powr real_of_int (5 - int 24 + 1))"
    unfolding to_float_def
  proof (rule fp_round_near)
    show "2 powr real_of_int 5 \<le> \<bar>q\<bar>" using lo by simp
    show "\<bar>q\<bar> < 2 powr real_of_int (5 + 1)" using lo hi by simp
    show "- 126 \<le> (5::int)" by simp
    have "\<bar>q * 262144 - 8389632\<bar> < 1 / 2" using lo hi by linarith
    then show "\<bar>q / 2 powr real_of_int (5 - int 24 + 1) - real_of_int 8389632\<bar> < 1 / 2"
      by (simp add: powr_neg_numeral)
    show "\<bar>real_of_int 8389632 * 2 powr real_of_int (5 - int 24 + 1)\<bar>
            < 2 powr real_of_int (127 + 1)"
      by (simp add: powr_neg_numeral)
  qed
  then have f: "to_float q = Some (8193 / 256)" by (simp add: powr_neg_numeral)
  show ?thesis
    by (simp add: mag_def d_quarter d0 d1024 d4097 q(1) f)
qed

lemma depthFromVec_half_0_32:
  "depthFromVec (Point3d (1 / 2) 0 32) = Some 8193
   \<and> \<lfloor>sqrt (1 / 2 * (1 / 2) + 0 * 0 + 32 * 32) * 256\<rfloor> = 8192"
proof -
  have "sqrt (1 / 2 * (1 / 2) + 0 * 0 + 32 * 32) = sqrt (4097 / 4)" by simp
  moreover have "\<lfloor>sqrt (4097 / 4) * 256\<rfloor> = 8192"
    using sqrt_4097_4 by (intro floor_unique) simp_all
  ultimately show ?thesis
    by (simp add: depthFromVec_def mag_half_0_32 pixel_val_def to_ushort_def trunc_toward_zero_def)
qed

text \<open>
  On the optical axis at \<open>z = 256 - 2 ^ -30\<close> the magnitude times 256 is below 65536,
  but the nearest \<open>float\<close> to the magnitude is 256 and the cast is undefined.
\<close>

lemma d_near_65536: "to_double ((256 - 1 / 2 ^ 30) * (256 - 1 / 2 ^ 30)) = Some (65536 - 1 / 2 ^ 21)"
proof -
  let ?r = "(256 - 1 / 2 ^ 30) * (256 - 1 / 2 ^ 30) :: real"
  have r: "?r = 65536 - 1 / 2 ^ 21 + 1 / 2 ^ 60" by simp
  have "to_double ?r = Some (real_of_int (2 ^ 53 - 2 ^ 16) * 2 powr real_of_int (15 - int 53 + 1))"
    unfolding to_double_def
  proof (rule fp_round_near)
    show "2 powr real_of_int 15 \<le> \<bar>?r\<bar>" by simp
    show "\<bar>?r\<bar> < 2 powr real_of_int (15 + 1)" by simp
    show "- 1022 \<le> (15::int)" by simp
    show "\<bar>?r / 2 powr real_of_int (15 - int 53 + 1) - real_of_int (2 ^ 53 - 2 ^ 16)\<bar> < 1 / 2"
      by (simp add: powr_neg_numeral)
    show "\<bar>real_of_int (2 ^ 53 - 2 ^ 16) * 2 powr real_of_int (15 - int 53 + 1)\<bar>
            < 2 powr real_of_int (1023 + 1)"
      by (simp add: powr_neg_numeral)
  qed
  then show ?thesis by (simp add: powr_neg_numeral)
qed

lemma d_below_65536: "to_double (65536 - 1 / 2 ^ 21) = Some (65536 - 1 / 2 ^ 21)"
  unfolding to_double_def
  by (rule fp_round_exact [where e = 15 and n = "2 ^ 53 - 2 ^ 16"]) (simp_all add: powr_neg_numeral)

lemma sqrt_below_65536: "256 - 1 / 2 ^ 29 \<le> sqrt (65536 - 1 / 2 ^ 21)" "sqrt (65536 - 1 / 2 ^ 21) < 256 - 1 / 2 ^ 31"
proof -
  show "256 - 1 / 2 ^ 29 \<le> sqrt (65536 - 1 / 2 ^ 21)"
    by (rule real_le_rsqrt) (simp add: power2_eq_square)
  show "sqrt (65536 - 1 / 2 ^ 21) < 256 - 1 / 2 ^ 31"
    by (rule real_less_lsqrt) (simp_all add: power2_eq_square)
qed

lemma depthFromVec_undefined: "depthFromVec (Point3d 0 0 (256 - 1 / 2 ^ 30)) = None
   \<and> sqrt (0 * 0 + 0 * 0 + (256 - 1 / 2 ^ 30) * (256 - 1 / 2 ^ 30)) * 256 < 65536"
proof -
  have s0: "sqrt (65536 - 1 / 2 ^ 21) \<le> 131072" "0 \<le> sqrt (65536 - 1 / 2 ^ 21)"
    using sqrt_below_65536 by simp_all
  from to_double_close [of "sqrt (65536 - 1 / 2 ^ 21)"] s0 obtain q where
    q: "to_double (sqrt (65536 - 1 / 2 ^ 21)) = Some q"
       "\<bar>q - sqrt (65536 - 1 / 2 ^ 21)\<bar> \<le> 1 / 2 ^ 36"
    by auto
  have "256 - 1 / 2 ^ 29 - 1 / 2 ^ 36 \<le> q" using q(2) sqrt_below_65536(1) by linarith
  moreover have "(256::real) - 1 / 2 ^ 28 \<le> 256 - 1 / 2 ^ 29 - 1 / 2 ^ 36" by simp
  ultimately have lo: "256 - 1 / 2 ^ 28 \<le> q" by linarith
  have "q < 256 - 1 / 2 ^ 31 + 1 / 2 ^ 36" using q(2) sqrt_below_65536(2) by linarith
  moreover have "(256::real) - 1 / 2 ^ 31 + 1 / 2 ^ 36 \<le> 256" by simp
  ultimately have hi: "q < 256" by linarith
  have lo': "255 \<le> q"
  proof -
    have "(255::real) \<le> 256 - 1 / 2 ^ 28" by simp
    with lo show ?thesis by linarith
  qed
  have "to_float q = Some (real_of_int (2 ^ 24) * 2 powr real_of_int (7 - int 24 + 1))"
    unfolding to_float_def
  proof (rule fp_round_near)
    show "2 powr real_of_int 7 \<le> \<bar>q\<bar>" using lo' by simp
    show "\<bar>q\<bar> < 2 powr real_of_int (7 + 1)" using lo' hi by simp
    show "- 126 \<le> (7::int)" by simp
    have "(256 - 1 / 2 ^ 28) * 65536 \<le> q * 65536" using lo by (intro mult_right_mono) simp_all
    moreover have "(256 - 1 / 2 ^ 28) * 65536 = (16777216::real) - 1 / 4096" by simp
    moreover have "q * 65536 < 256 * 65536" using hi by simp
    ultimately have "\<bar>q * 65536 - 16777216\<bar> < 1 / 2" by linarith
    then show "\<bar>q / 2 powr real_of_int (7 - int 24 + 1) - real_of_int (2 ^ 24)\<bar> < 1 / 2"
      by (simp add: powr_neg_numeral)
    show "\<bar>real_of_int (2 ^ 24) * 2 powr real_of_int (7 - int 24 + 1)\<bar>
            < 2 powr real_of_int (127 + 1)"
      by (simp add: powr_neg_numeral)
  qed
  then have f: "to_float q = Some 256" by (simp add: powr_neg_numeral)
  have m: "mag (Point3d 0 0 (256 - 1 / 2 ^ 30)) = Some 256"
    using d_near_65536 d_below_65536 q(1) f by (simp add: mag_def d0)
  have "sqrt ((256 - 1 / 2 ^ 30) * (256 - 1 / 2 ^ 30)) = \<bar>256 - 1 / 2 ^ 30 :: real\<bar>"
    by (rule real_sqrt_abs2)
  also have "\<dots> < 256" by simp
  finally have h: "sqrt ((256 - 1 / 2 ^ 30) * (256 - 1 / 2 ^ 30)) < (256::real)" .
  have d: "depthFromVec (Point3d 0 0 (256 - 1 / 2 ^ 30)) = None"
    unfolding depthFromVec_def m
    by (simp add: pixel_val_def to_ushort_def trunc_toward_zero_def)
  show ?thesis using d h by simp
qed

section \<open>Claims on \<open>depthFromVec\<close>\<close>




text \<open>
  C3 (amended).  The claim says that the encoder rounds, saturates and maps 0 to 1.
  The cast of line 53 truncates: for every \<open>d \<ge> 0\<close> with \<open>d \<times> 256 < 65536\<close> the encoder
  returns the floor of \<open>d \<times> 256\<close>, so 0 is encoded as 0; beyond that range the conversion
  is undefined, and nothing saturates.
\<close>

theorem pixel_val_truncates:
  assumes "0 \<le> d"
  shows "if d * 256 < 65536
         then \<exists>w. pixel_val d = Some w \<and> uint w = \<lfloor>d * 256\<rfloor>
         else pixel_val d = None"
proof (cases "d * 256 < 65536")
  case True
  have "0 \<le> d * 256" using assms by simp
  from to_ushort_in_range [OF this True] True show ?thesis
    by (simp add: pixel_val_def)
next
  case False
  then have "65536 \<le> d * 256" by simp
  from to_ushort_too_large [OF this] False show ?thesis
    by (simp add: pixel_val_def)
qed

text \<open>At \<open>d = 7/1024\<close>, where \<open>d \<times> 256 = 1.75\<close>, the encoder returns 1.\<close>

theorem pixel_val_truncates_witness:
  "(0::real) \<le> 7 / 1024 \<and> (\<exists>w. pixel_val (7 / 1024) = Some w \<and> uint w = 1)"
  using pixel_val_truncates [of "7 / 1024"] by simp

text \<open>
  C3 as stated fails at \<open>d = 0\<close> (the code returns 0, the specification's encoder 1), at
  \<open>d = 7/1024\<close> (1 against the rounded 2) and at \<open>d = 256\<close> (undefined against the
  saturated 65535).
\<close>

theorem encode_counterexample:
  "pixel_val 0 = Some 0 \<and> spec_encode 0 = 1 \<and> depthFromVec (Point3d 0 0 0) = Some 0
   \<and> pixel_val (7 / 1024) = Some 1 \<and> spec_encode (7 / 1024) = 2
   \<and> pixel_val 256 = None \<and> spec_encode 256 = 65535"
  by (simp add: pixel_val_def to_ushort_def trunc_toward_zero_def spec_encode_def
      depthFromVec_def mag_0 round_def)

text \<open>
  C7 (amended).  The claim bounds the round-trip error by 1/512.  With the truncating
  encoder of the code the decoded value never exceeds \<open>d\<close> and falls short of it by less
  than 1/256, a whole quantization step, for every \<open>d\<close> in \<open>(0, 65535/256]\<close>.
\<close>

theorem decode_pixel_val_error:
  assumes "0 < d" and "d \<le> 65535 / 256"
  shows "\<exists>w. pixel_val d = Some w \<and> decode w \<le> d \<and> d - decode w < 1 / 256"
proof -
  have nn: "0 \<le> d * 256" using assms(1) by simp
  have lt: "d * 256 < 65536" using assms(2) by simp
  from to_ushort_in_range [OF nn lt] obtain w
    where w: "to_ushort (d * 256) = Some w" and u: "uint w = \<lfloor>d * 256\<rfloor>" by blast
  have dec: "decode w = real_of_int \<lfloor>d * 256\<rfloor> / 256"
  proof (cases "w = 0")
    case True
    with u show ?thesis by (simp add: decode_def)
  next
    case False
    have "real (unat w) = real_of_int (uint w)" by simp
    with False u show ?thesis by (simp add: decode_def)
  qed
  have dec256: "decode w * 256 = real_of_int \<lfloor>d * 256\<rfloor>" using dec by simp
  have "real_of_int \<lfloor>d * 256\<rfloor> \<le> d * 256" by (rule of_int_floor_le)
  then have le: "decode w \<le> d" using dec256 by linarith
  have "d * 256 < real_of_int \<lfloor>d * 256\<rfloor> + 1" by linarith
  then have "d - decode w < 1 / 256" using dec256 by linarith
  with w le show ?thesis by (simp add: pixel_val_def)
qed

theorem decode_pixel_val_error_witness:
  "(0::real) < 7 / 1024 \<and> (7 / 1024 :: real) \<le> 65535 / 256
   \<and> (\<exists>w. pixel_val (7 / 1024) = Some w \<and> decode w \<le> 7 / 1024
          \<and> 7 / 1024 - decode w < 1 / 256)"
  using decode_pixel_val_error [of "7 / 1024"] by simp

text \<open>
  C7 as stated fails at \<open>d = 7/1024\<close>: the code encodes it as 1, which decodes to 1/256,
  at distance 3/1024 from \<open>d\<close>, more than 1/512.
\<close>

theorem round_trip_counterexample:
  "(0::real) < 7 / 1024 \<and> (7 / 1024 :: real) \<le> 65535 / 256
   \<and> pixel_val (7 / 1024) = Some 1 \<and> decode 1 = 1 / 256
   \<and> \<not> \<bar>decode 1 - 7 / 1024\<bar> \<le> 1 / 512"
  by (simp add: pixel_val_def to_ushort_def trunc_toward_zero_def decode_def)

section \<open>The compiled callback\<close>

lemma published_append: "published (es @ fs) = published es @ published fs"
  by (induction es rule: published.induct) simp_all

lemma published_cloud_callback: "published (fst (cloud_callback self cloud_msg cam_info)) = []"
  by (simp add: cloud_callback_def)

lemma spin_eq:
  "spin self msgs = (concat (map (\<lambda>(c, i). fst (cloud_callback self c i)) msgs), self)"
  by (induction msgs) (auto simp: cloud_callback_def)

lemma published_concat_callbacks:
  "published (concat (map (\<lambda>(c, i). fst (cloud_callback self c i)) msgs)) = []"
  by (induction msgs) (auto simp: published_append published_cloud_callback)

text \<open>
  C10.  For every synchronized pair of messages \<open>cloud_callback\<close> prints the line with
  the width and height of the cloud, prints the line with the width and height of the
  camera, loads a local camera model from the camera info, and does nothing else: it
  publishes nothing and leaves the object as it was.  Over any sequence of pairs the
  node does this once per pair, in order, and never publishes an image.
\<close>

theorem cloud_callback_publishes_nothing:
  "cloud_callback self cloud_msg cam_info
     = ([Printf (''Cloud: width = %d, height = %d'' @ [CHR 0x0A])
           [sint (pc_width cloud_msg), sint (pc_height cloud_msg)],
         Printf (''Camera: width = %d, height = %d'' @ [CHR 0x0A])
           [sint (ci_width cam_info), sint (ci_height cam_info)],
         FromCameraInfo cam_info],
        self)
   \<and> published (fst (cloud_callback self cloud_msg cam_info)) = []
   \<and> fst (spin self msgs) = concat (map (\<lambda>(c, i). fst (cloud_callback self c i)) msgs)
   \<and> length (fst (spin self msgs)) = 3 * length msgs
   \<and> published (fst (spin self msgs)) = []
   \<and> snd (spin self msgs) = self"
proof -
  have "length (concat (map (\<lambda>(c, i). fst (cloud_callback self c i)) msgs)) = 3 * length msgs"
    by (induction msgs) (auto simp: cloud_callback_def)
  then show ?thesis
    by (simp add: spin_eq published_concat_callbacks published_cloud_callback)
      (simp add: cloud_callback_def)
qed

section \<open>The callback on the pipeline's inputs\<close>

text \<open>
  The comment above \<open>cloud_callback\<close> (lines 78 to 83) says that it transforms the cloud
  to camera coordinates, projects the points on the image plane with a pinhole camera
  model, gives each projected point its distance as value, and publishes the depth map.
  The compiled body does none of this.  The theorems of this section run it on inputs
  on which the specification's pipeline would have to produce an image.
\<close>







end
